theory Spec2Isabelle
  imports Main
begin

section \<open>The user store of app.py\<close>

text \<open>
  The program keeps one module-level list \<open>users\<close> of records and rewrites the file
  \<open>users.json\<close> after every mutation. The model passes that state explicitly: a
  function of the model takes the store and returns the response together with the store
  it leaves behind, also when the handler stops early or an exception escapes it.
\<close>

subsection \<open>JSON values and Python's reading of them\<close>

text \<open>
  A request body is whatever \<open>request.get_json(force=True, silent=True)\<close> returns: a
  parsed JSON value, or \<open>None\<close> when the body does not parse; \<open>JNull\<close> stands for both.
  A float is kept as a mantissa and a binary exponent, or one of the three special values
  that Python's parser accepts; the handlers only ever test a float for truth.
  Strings are lists of characters read as code points below 128: \<open>strip\<close> and \<open>lower\<close>
  follow Python on ASCII text and leave every other character alone.
\<close>

datatype pyfloat = Finite int int | Infinity bool | NaN

datatype json =
    JNull
  | JBool bool
  | JInt int
  | JFloat pyfloat
  | JStr string
  | JArr "json list"
  | JObj "(string \<times> json) list"

text \<open>Exceptions that can escape a handler; Flask answers them with a 500 page.\<close>

datatype exn = TypeError | AttributeError | KeyError

text \<open>\<open>bool(v)\<close>, as \<open>if v:\<close> and \<open>not v\<close> compute it.\<close>

fun truthy :: "json \<Rightarrow> bool" where
  "truthy JNull = False"
| "truthy (JBool b) = b"
| "truthy (JInt n) = (n \<noteq> 0)"
| "truthy (JFloat (Finite m e)) = (m \<noteq> 0)"
| "truthy (JFloat (Infinity sg)) = True"
| "truthy (JFloat NaN) = True"
| "truthy (JStr s) = (s \<noteq> [])"
| "truthy (JArr xs) = (xs \<noteq> [])"
| "truthy (JObj kvs) = (kvs \<noteq> [])"

text \<open>\<open>isinstance(v, str)\<close>.\<close>

fun is_str :: "json \<Rightarrow> bool" where
  "is_str (JStr s) = True"
| "is_str v = False"

text \<open>\<open>d.get(key)\<close> on a dict: \<open>None\<close> when the key is absent.\<close>

definition dict_get :: "(string \<times> json) list \<Rightarrow> string \<Rightarrow> json" where
  "dict_get d key = (case map_of d key of None \<Rightarrow> JNull | Some v \<Rightarrow> v)"

text \<open>
  \<open>str.isspace\<close> on a code point below 128: tab, line feed, vertical tab, form feed,
  carriage return, the four separators 0x1C to 0x1F, and the space.
\<close>

definition is_space :: "char \<Rightarrow> bool" where
  "is_space c = (c \<in> set [CHR 0x09, CHR 0x0A, CHR 0x0B, CHR 0x0C, CHR 0x0D,
                           CHR 0x1C, CHR 0x1D, CHR 0x1E, CHR 0x1F, CHR 0x20])"

text \<open>\<open>s.strip()\<close>.\<close>

definition strip :: "string \<Rightarrow> string" where
  "strip s = rev (dropWhile is_space (rev (dropWhile is_space s)))"

text \<open>\<open>s.lower()\<close>.\<close>

definition lower_char :: "char \<Rightarrow> char" where
  "lower_char c =
     (case map_of (zip ''ABCDEFGHIJKLMNOPQRSTUVWXYZ'' ''abcdefghijklmnopqrstuvwxyz'') c of
        None \<Rightarrow> c
      | Some l \<Rightarrow> l)"

definition lower :: "string \<Rightarrow> string" where
  "lower s = map lower_char s"

text \<open>\<open>sub in s\<close> on two strings: \<open>sub\<close> occurs in \<open>s\<close> as a contiguous piece.\<close>

fun str_contains :: "string \<Rightarrow> string \<Rightarrow> bool" where
  "str_contains sub [] = (sub = [])"
| "str_contains sub (c # cs) = (take (length sub) (c # cs) = sub \<or> str_contains sub cs)"

text \<open>
  \<open>"@" in v\<close>: a substring test on a string, an element test on a list, a key test on a
  dict, and a TypeError on everything else (\<open>None\<close>, booleans and numbers are not
  iterable).
\<close>

fun contains_at :: "json \<Rightarrow> exn + bool" where
  "contains_at (JStr s) = Inr (str_contains ''@'' s)"
| "contains_at (JArr xs) = Inr (JStr ''@'' \<in> set xs)"
| "contains_at (JObj kvs) = Inr (''@'' \<in> set (map fst kvs))"
| "contains_at v = Inl TypeError"

text \<open>\<open>v.strip()\<close> and \<open>v.lower()\<close>: only a string has the method.\<close>

fun py_strip :: "json \<Rightarrow> exn + string" where
  "py_strip (JStr s) = Inr (strip s)"
| "py_strip v = Inl AttributeError"

fun py_lower :: "json \<Rightarrow> exn + string" where
  "py_lower (JStr s) = Inr (lower s)"
| "py_lower v = Inl AttributeError"

text \<open>\<open>payload[key]\<close>: KeyError on a dict without the key, TypeError on a value that is no
  dict (\<open>None\<close>, a number, and a list or string indexed by a string).\<close>

fun subscript :: "json \<Rightarrow> string \<Rightarrow> exn + json" where
  "subscript (JObj d) key = (case map_of d key of None \<Rightarrow> Inl KeyError | Some v \<Rightarrow> Inr v)"
| "subscript v key = Inl TypeError"

text \<open>
  The test \<open>"@" not in email or len(email.strip()) < 5\<close>, written out in
  \<open>validate_user_payload\<close> and again in \<open>update_user\<close>. Python evaluates it left to
  right and stops at the first true disjunct.
\<close>

definition email_rejected :: "json \<Rightarrow> exn + bool" where
  "email_rejected em =
     (case contains_at em of
        Inl x \<Rightarrow> Inl x
      | Inr has \<Rightarrow>
          if \<not> has then Inr True
          else (case py_strip em of Inl x \<Rightarrow> Inl x | Inr t \<Rightarrow> Inr (length t < 5)))"

subsection \<open>Records, the store and the persistence file\<close>

text \<open>
  Every record the program builds (the two seeded ones and the one of \<open>create_user\<close>) is
  a dict with the keys \<open>id\<close>, \<open>name\<close>, \<open>email\<close> and \<open>created_at\<close>, an integer under the
  first and strings under the others; \<open>update_user\<close> stores strings only and adds
  \<open>updated_at\<close>. A record is therefore a HOL record, with \<open>uid\<close> for the key \<open>id\<close>, and
  \<open>u.get("email", "")\<close> reads the field. A file edited by hand into another shape is
  outside the model.
\<close>

record user =
  uid :: int
  name :: string
  email :: string
  created_at :: string
  updated_at :: "string option"

text \<open>
  The file \<open>users.json\<close> is absent (\<open>None\<close>) or has a content of type \<open>'f\<close>. The encoder
  \<open>json.dump\<close> and the decoder \<open>json.load\<close> belong to Python's library; they are the
  parameters \<open>dumps\<close> and \<open>loads\<close>, and \<open>loads\<close> answers \<open>None\<close> where \<open>json.load\<close>
  raises.
\<close>

record 'f store =
  users :: "user list"
  data_file :: "'f option"

definition load_data :: "('f \<Rightarrow> user list option) \<Rightarrow> 'f option \<Rightarrow> user list" where
  "load_data loads f =
     (case f of
        None \<Rightarrow> []
      | Some text \<Rightarrow> (case loads text of None \<Rightarrow> [] | Some us \<Rightarrow> us))"

definition save_data :: "(user list \<Rightarrow> 'f) \<Rightarrow> user list \<Rightarrow> 'f option \<Rightarrow> 'f option" where
  "save_data dumps us f = Some (dumps us)"

text \<open>\<open>max(u["id"] for u in users)\<close> walks the list once, keeping the larger value.\<close>

definition next_id :: "user list \<Rightarrow> int" where
  "next_id us =
     (case us of [] \<Rightarrow> 1 | u # rest \<Rightarrow> fold max (map uid rest) (uid u) + 1)"

definition find_user :: "user list \<Rightarrow> int \<Rightarrow> user option" where
  "find_user us user_id = find (\<lambda>u. uid u = user_id) us"

text \<open>
  \<open>find_user\<close> hands out the dict that sits in the list, and \<open>update_user\<close> assigns to
  its keys: the first record with the id changes in place.
\<close>

fun assign :: "int \<Rightarrow> (user \<Rightarrow> user) \<Rightarrow> user list \<Rightarrow> user list" where
  "assign user_id f [] = []"
| "assign user_id f (u # us) =
     (if uid u = user_id then f u # us else u # assign user_id f us)"

definition validate_user_payload :: "json \<Rightarrow> bool \<Rightarrow> exn + (bool \<times> string option)" where
  "validate_user_payload payload require_email =
     (case payload of
        JObj d \<Rightarrow>
          (let nm = dict_get d ''name''; em = dict_get d ''email'' in
           if \<not> truthy nm \<or> \<not> is_str nm
              \<or> (case nm of JStr n \<Rightarrow> length (strip n) < 2 | _ \<Rightarrow> True)
           then Inr (False, Some ''Field 'name' is required (min 2 chars).'')
           else if require_email then
             (if \<not> truthy em
              then Inr (False, Some ''Field 'email' is required and must look like an email.'')
              else (case email_rejected em of
                      Inl x \<Rightarrow> Inl x
                    | Inr True \<Rightarrow>
                        Inr (False, Some ''Field 'email' is required and must look like an email.'')
                    | Inr False \<Rightarrow> Inr (True, None)))
           else Inr (True, None))
      | _ \<Rightarrow> Inr (False, Some ''Payload must be a JSON object.''))"

text \<open>The two sample records of a first start; each reads the clock on its own.\<close>

definition seed :: "string \<Rightarrow> string \<Rightarrow> user list" where
  "seed now1 now2 =
     [\<lparr>uid = 1, name = ''Aman'', email = ''aman@example.com'', created_at = now1,
       updated_at = None\<rparr>,
      \<lparr>uid = 2, name = ''Priya'', email = ''priya@example.com'', created_at = now2,
       updated_at = None\<rparr>]"

definition startup ::
  "('f \<Rightarrow> user list option) \<Rightarrow> (user list \<Rightarrow> 'f) \<Rightarrow> string \<Rightarrow> string \<Rightarrow> 'f option \<Rightarrow> 'f store" where
  "startup loads dumps now1 now2 f =
     (let us = load_data loads f in
      if us = [] then \<lparr>users = seed now1 now2, data_file = save_data dumps (seed now1 now2) f\<rparr>
      else \<lparr>users = us, data_file = f\<rparr>)"

subsection \<open>Responses\<close>

text \<open>
  A handler answers with a status code and a JSON body, or an exception escapes it. The
  bodies are the dicts the handlers pass to \<open>jsonify\<close>: \<open>{"error": e}\<close>,
  \<open>{"message": m, "user": u}\<close>, \<open>{"message": "User (id=n) deleted"}\<close>, a bare record, and
  \<open>{"meta": {"total", "page", "limit"}, "data"}\<close>, whose limit is a number or the string
  \<open>"all"\<close>. The error of a body is the second component of the validation's pair or a
  fixed message, so it is a string or \<open>None\<close>.
\<close>

datatype limit_meta = LimitAll | LimitNum int

datatype body =
    ErrorBody "string option"
  | UserMessage string user
  | DeletedMessage int
  | UserBody user
  | Listing nat int limit_meta "user list"

datatype outcome = Response nat body | Raises exn

subsection \<open>GET /users\<close>

text \<open>
  \<open>xs[start:stop]\<close>: a negative index counts from the end of the list, and both indices
  are then clamped into the list.
\<close>

definition py_slice :: "'a list \<Rightarrow> int \<Rightarrow> int \<Rightarrow> 'a list" where
  "py_slice xs start stop =
     (let n = int (length xs);
          lo = (if start < 0 then max 0 (start + n) else min start n);
          hi = (if stop < 0 then max 0 (stop + n) else min stop n)
      in take (nat (hi - lo)) (drop (nat lo) xs))"

text \<open>
  A query parameter is missing, or its text is no integer (\<open>int\<close> raises ValueError), or
  it is the integer given.
\<close>

datatype int_arg = Missing | Malformed | Given int

fun parse_arg :: "int_arg \<Rightarrow> int \<Rightarrow> int option" where
  "parse_arg Missing dflt = Some dflt"
| "parse_arg Malformed dflt = None"
| "parse_arg (Given n) dflt = Some n"

definition filtered_users :: "string \<Rightarrow> user list \<Rightarrow> user list" where
  "filtered_users q us =
     (if q \<noteq> [] then
        filter (\<lambda>u. str_contains q (lower (name u)) \<or> str_contains q (lower (email u))) us
      else us)"

definition get_users :: "string option \<Rightarrow> int_arg \<Rightarrow> int_arg \<Rightarrow> 'f store \<Rightarrow> outcome" where
  "get_users q_arg page_arg limit_arg s =
     (let q = lower (strip (case q_arg of None \<Rightarrow> [] | Some t \<Rightarrow> t)) in
      case parse_arg page_arg 1 of
        None \<Rightarrow> Response 400 (ErrorBody (Some ''page and limit must be integers''))
      | Some page \<Rightarrow>
         (case parse_arg limit_arg 0 of
            None \<Rightarrow> Response 400 (ErrorBody (Some ''page and limit must be integers''))
          | Some limit \<Rightarrow>
             (let filtered = filtered_users q (users s);
                  total = length filtered;
                  page_data =
                    (if limit > 0 then
                       (let start = (page - 1) * limit; stop = start + limit
                        in py_slice filtered start stop)
                     else filtered)
              in Response 200
                   (Listing total page (if limit \<noteq> 0 then LimitNum limit else LimitAll)
                      page_data))))"

subsection \<open>GET /users/id\<close>

definition get_user :: "int \<Rightarrow> 'f store \<Rightarrow> outcome" where
  "get_user user_id s =
     (case find_user (users s) user_id of
        None \<Rightarrow> Response 404 (ErrorBody (Some ''User not found''))
      | Some user \<Rightarrow> Response 200 (UserBody user))"

subsection \<open>POST /users\<close>

text \<open>
  \<open>now\<close> is the text of the clock when the handler reads it. The duplicate test compares
  the lower-cased email of every record with \<open>payload["email"].lower()\<close>, the email as
  it came; the record then stores \<open>payload["email"].strip()\<close>.
\<close>

definition create_user ::
  "(user list \<Rightarrow> 'f) \<Rightarrow> string \<Rightarrow> json \<Rightarrow> 'f store \<Rightarrow> outcome \<times> 'f store" where
  "create_user dumps now payload s =
     (case validate_user_payload payload True of
        Inl x \<Rightarrow> (Raises x, s)
      | Inr (ok, err) \<Rightarrow>
          if \<not> ok then (Response 400 (ErrorBody err), s)
          else
            (case subscript payload ''email'' of
               Inl x \<Rightarrow> (Raises x, s)
             | Inr em \<Rightarrow>
                (case py_lower em of
                   Inl x \<Rightarrow> (Raises x, s)
                 | Inr em_lower \<Rightarrow>
                    if \<exists>u \<in> set (users s). lower (email u) = em_lower
                    then (Response 409 (ErrorBody (Some ''User with this email already exists.'')), s)
                    else
                      (case subscript payload ''name'' of
                         Inl x \<Rightarrow> (Raises x, s)
                       | Inr nm \<Rightarrow>
                          (case py_strip nm of
                             Inl x \<Rightarrow> (Raises x, s)
                           | Inr nm_stripped \<Rightarrow>
                              (case py_strip em of
                                 Inl x \<Rightarrow> (Raises x, s)
                               | Inr em_stripped \<Rightarrow>
                                  (let new_user =
                                         \<lparr>uid = next_id (users s), name = nm_stripped,
                                          email = em_stripped, created_at = now,
                                          updated_at = None\<rparr>;
                                       us = users s @ [new_user]
                                   in (Response 201 (UserMessage ''User created'' new_user),
                                       \<lparr>users = us,
                                        data_file = save_data dumps us (data_file s)\<rparr>))))))))"

subsection \<open>PUT /users/id\<close>

text \<open>
  \<open>user\<close> is the dict that sits in the list, so each assignment to one of its keys
  changes the store at once. Lines 151 to 154 handle the name and lines 156 to 162 the
  email; either may answer early, and the store then stays as the lines before left it.
  \<open>payload.get\<close> on a truthy payload that is no dict (a number, a string, a list,
  \<open>true\<close>) raises AttributeError.
\<close>

definition update_name :: "json \<Rightarrow> user \<Rightarrow> outcome + user" where
  "update_name nm user =
     (if truthy nm then
        (case nm of
           JStr n \<Rightarrow>
             if length (strip n) < 2 then Inl (Response 400 (ErrorBody (Some ''Invalid name'')))
             else Inr (user\<lparr>name := strip n\<rparr>)
         | _ \<Rightarrow> Inl (Response 400 (ErrorBody (Some ''Invalid name''))))
      else Inr user)"

definition update_email :: "int \<Rightarrow> json \<Rightarrow> user list \<Rightarrow> user \<Rightarrow> outcome + user" where
  "update_email user_id em us user =
     (if truthy em then
        (case email_rejected em of
           Inl x \<Rightarrow> Inl (Raises x)
         | Inr True \<Rightarrow> Inl (Response 400 (ErrorBody (Some ''Invalid email'')))
         | Inr False \<Rightarrow>
            (case py_lower em of
               Inl x \<Rightarrow> Inl (Raises x)
             | Inr em_lower \<Rightarrow>
                if \<exists>u \<in> set us. uid u \<noteq> user_id \<and> lower (email u) = em_lower
                then Inl (Response 409 (ErrorBody (Some ''Another user with this email exists.'')))
                else
                  (case py_strip em of
                     Inl x \<Rightarrow> Inl (Raises x)
                   | Inr em_stripped \<Rightarrow> Inr (user\<lparr>email := em_stripped\<rparr>))))
      else Inr user)"

definition update_user ::
  "(user list \<Rightarrow> 'f) \<Rightarrow> string \<Rightarrow> int \<Rightarrow> json \<Rightarrow> 'f store \<Rightarrow> outcome \<times> 'f store" where
  "update_user dumps now user_id payload s =
     (case find_user (users s) user_id of
        None \<Rightarrow> (Response 404 (ErrorBody (Some ''User not found'')), s)
      | Some user \<Rightarrow>
          if \<not> truthy payload
          then (Response 400 (ErrorBody (Some ''No JSON payload provided'')), s)
          else
            (case payload of
               JObj d \<Rightarrow>
                 (let nm = dict_get d ''name''; em = dict_get d ''email'' in
                  case update_name nm user of
                    Inl answer \<Rightarrow> (answer, s)
                  | Inr user1 \<Rightarrow>
                     (let s1 = s\<lparr>users := assign user_id (\<lambda>u. user1) (users s)\<rparr> in
                      case update_email user_id em (users s1) user1 of
                        Inl answer \<Rightarrow> (answer, s1)
                      | Inr user2 \<Rightarrow>
                         (let user3 = user2\<lparr>updated_at := Some now\<rparr>;
                              us = assign user_id (\<lambda>u. user3) (users s1)
                          in (Response 200 (UserMessage ''User updated'' user3),
                              \<lparr>users = us, data_file = save_data dumps us (data_file s1)\<rparr>))))
             | _ \<Rightarrow> (Raises AttributeError, s)))"

subsection \<open>DELETE /users/id\<close>

definition delete_user ::
  "(user list \<Rightarrow> 'f) \<Rightarrow> int \<Rightarrow> 'f store \<Rightarrow> outcome \<times> 'f store" where
  "delete_user dumps user_id s =
     (case find_user (users s) user_id of
        None \<Rightarrow> (Response 404 (ErrorBody (Some ''User not found'')), s)
      | Some user \<Rightarrow>
          (let us = filter (\<lambda>u. uid u \<noteq> user_id) (users s)
           in (Response 200 (DeletedMessage user_id),
               \<lparr>users = us, data_file = save_data dumps us (data_file s)\<rparr>)))"

subsection \<open>The uniqueness the handlers aim at, and example stores\<close>

text \<open>No two records of the collection have the same email once both are lower-cased.\<close>

definition emails_unique :: "user list \<Rightarrow> bool" where
  "emails_unique us = distinct (map (\<lambda>u. lower (email u)) us)"

text \<open>
  The store of a first start, with no file yet. In the examples the file holds the list
  that was saved, so the encoder is the identity and the decoder is \<open>Some\<close>.
\<close>

definition seeded :: "user list store" where
  "seeded = startup Some (\<lambda>us. us) ''2024-05-01 10:00:00.000000'' ''2024-05-01 10:00:00.000012'' None"

definition payload_of :: "string \<Rightarrow> string \<Rightarrow> json" where
  "payload_of nm em = JObj [(''name'', JStr nm), (''email'', JStr em)]"

text \<open>The seeded store after Bo was created.\<close>

definition bo_store :: "user list store" where
  "bo_store = snd (create_user (\<lambda>us. us) ''2024-05-01 10:05:00.000000'' (payload_of ''Bo'' ''bo@x.co'') seeded)"

text \<open>The two seeded records by name.\<close>

definition aman :: user where
  "aman = \<lparr>uid = 1, name = ''Aman'', email = ''aman@example.com'',
           created_at = ''2024-05-01 10:00:00.000000'', updated_at = None\<rparr>"

definition priya :: user where
  "priya = \<lparr>uid = 2, name = ''Priya'', email = ''priya@example.com'',
            created_at = ''2024-05-01 10:00:00.000012'', updated_at = None\<rparr>"

text \<open>Bo by name, and the store after Priya was deleted: the ids 1 and 3.\<close>

definition bo :: user where
  "bo = \<lparr>uid = 3, name = ''Bo'', email = ''bo@x.co'',
          created_at = ''2024-05-01 10:05:00.000000'', updated_at = None\<rparr>"

definition gap_store :: "user list store" where
  "gap_store = snd (delete_user (\<lambda>us. us) 2 bo_store)"

section \<open>Properties\<close>

subsection \<open>Auxiliary facts\<close>

lemma find_user_Some: "find_user us i = Some u \<Longrightarrow> u \<in> set us \<and> uid u = i"
  by (auto simp: find_user_def find_Some_iff)

lemma assign_same: "find_user us i = Some u \<Longrightarrow> assign i (\<lambda>v. u) us = us"
  by (induction us) (auto simp: find_user_def split: if_splits)

lemma find_assign:
  "find_user us i = Some u \<Longrightarrow> uid u' = i \<Longrightarrow> find_user (assign i (\<lambda>v. u') us) i = Some u'"
  by (induction us) (auto simp: find_user_def split: if_splits)

lemma assign_assign:
  "uid a = i \<Longrightarrow> assign i (\<lambda>v. b) (assign i (\<lambda>v. a) us) = assign i (\<lambda>v. b) us"
  by (induction us) auto

lemma length_assign: "length (assign i f us) = length us"
  by (induction us) auto

lemma nth_assign_other:
  "k < length us \<Longrightarrow> uid (us ! k) \<noteq> i \<Longrightarrow> assign i f us ! k = us ! k"
proof (induction us arbitrary: k)
  case Nil
  then show ?case by simp
next
  case (Cons u us)
  then show ?case by (cases k) auto
qed

lemma map_uid_assign: "uid u' = i \<Longrightarrow> map uid (assign i (\<lambda>v. u') us) = map uid us"
  by (induction us) auto

lemma assign_neq:
  "find_user us i = Some u \<Longrightarrow> u' \<noteq> u \<Longrightarrow> assign i (\<lambda>v. u') us \<noteq> us"
  by (induction us) (auto simp: find_user_def split: if_splits)

lemma others_assign:
  "uid u' = i \<Longrightarrow>
   (\<exists>v \<in> set (assign i (\<lambda>w. u') us). uid v \<noteq> i \<and> P v) = (\<exists>v \<in> set us. uid v \<noteq> i \<and> P v)"
  by (induction us) auto

lemma email_rejected_False_str:
  "email_rejected em = Inr False \<Longrightarrow>
   \<exists>e. em = JStr e \<and> str_contains ''@'' e \<and> 5 \<le> length (strip e)"
  by (cases em) (auto simp: email_rejected_def split: if_splits)

text \<open>A payload that \<open>validate_user_payload\<close> accepts is a dict with two string fields.\<close>

lemma validate_ok_fields:
  assumes "validate_user_payload payload True = Inr (True, err)"
  shows "\<exists>d n e. payload = JObj d \<and> map_of d ''name'' = Some (JStr n)
           \<and> map_of d ''email'' = Some (JStr e) \<and> err = None
           \<and> 2 \<le> length (strip n) \<and> str_contains ''@'' e \<and> 5 \<le> length (strip e)"
proof (cases payload)
  case (JObj d)
  let ?nm = "dict_get d ''name''" and ?em = "dict_get d ''email''"
  from assms JObj have nm: "truthy ?nm" "is_str ?nm"
    by (auto simp: validate_user_payload_def Let_def split: if_splits)
  then obtain n where n: "?nm = JStr n" by (cases ?nm) auto
  from assms JObj n have len: "2 \<le> length (strip n)"
    by (auto simp: validate_user_payload_def Let_def split: if_splits)
  from assms JObj n len have rej: "email_rejected ?em = Inr False" and errN: "err = None"
    by (auto simp: validate_user_payload_def Let_def split: if_splits sum.splits bool.splits)
  from email_rejected_False_str[OF rej]
  obtain e where e: "?em = JStr e" "str_contains ''@'' e" "5 \<le> length (strip e)"
    by blast
  from n have "map_of d ''name'' = Some (JStr n)"
    by (auto simp: dict_get_def split: option.splits)
  moreover from e have "map_of d ''email'' = Some (JStr e)"
    by (auto simp: dict_get_def split: option.splits)
  ultimately show ?thesis using JObj len e errN by blast
qed (use assms in \<open>auto simp: validate_user_payload_def\<close>)

lemma create_user_201:
  assumes "validate_user_payload payload True = Inr (True, err)"
    and "subscript payload ''email'' = Inr (JStr em)"
    and "subscript payload ''name'' = Inr (JStr n)"
    and "\<not> (\<exists>u \<in> set (users s). lower (email u) = lower em)"
  shows "create_user dumps now payload s =
     (Response 201 (UserMessage ''User created''
        \<lparr>uid = next_id (users s), name = strip n, email = strip em, created_at = now,
         updated_at = None\<rparr>),
      \<lparr>users = users s @ [\<lparr>uid = next_id (users s), name = strip n, email = strip em,
                              created_at = now, updated_at = None\<rparr>],
       data_file = Some (dumps (users s @ [\<lparr>uid = next_id (users s), name = strip n,
                              email = strip em, created_at = now, updated_at = None\<rparr>]))\<rparr>)"
  using assms by (simp add: create_user_def save_data_def Let_def)

lemma create_user_409:
  assumes "validate_user_payload payload True = Inr (True, err)"
    and "subscript payload ''email'' = Inr (JStr em)"
    and "\<exists>u \<in> set (users s). lower (email u) = lower em"
  shows "create_user dumps now payload s =
     (Response 409 (ErrorBody (Some ''User with this email already exists.'')), s)"
  using assms by (simp add: create_user_def)

lemma create_user_400:
  assumes "validate_user_payload payload True = Inr (False, err)"
  shows "create_user dumps now payload s = (Response 400 (ErrorBody err), s)"
  using assms by (simp add: create_user_def)

text \<open>The example store and payloads, evaluated.\<close>

lemma seeded_eq:
  "seeded = \<lparr>users = seed ''2024-05-01 10:00:00.000000'' ''2024-05-01 10:00:00.000012'',
             data_file = Some (seed ''2024-05-01 10:00:00.000000'' ''2024-05-01 10:00:00.000012'')\<rparr>"
  by (simp add: seeded_def startup_def load_data_def save_data_def seed_def)

lemma users_seeded:
  "users seeded = seed ''2024-05-01 10:00:00.000000'' ''2024-05-01 10:00:00.000012''"
  by (simp add: seeded_eq)

lemma validate_payload_of:
  "validate_user_payload (payload_of n em) True =
     (if n = [] \<or> length (strip n) < 2
      then Inr (False, Some ''Field 'name' is required (min 2 chars).'')
      else if em = [] \<or> \<not> str_contains ''@'' em \<or> length (strip em) < 5
           then Inr (False, Some ''Field 'email' is required and must look like an email.'')
           else Inr (True, None))"
  by (simp add: payload_of_def validate_user_payload_def dict_get_def email_rejected_def)

lemma subscript_payload_of:
  "subscript (payload_of n em) ''name'' = Inr (JStr n)"
  "subscript (payload_of n em) ''email'' = Inr (JStr em)"
  by (simp_all add: payload_of_def)

lemma strip_examples:
  "strip ''Bo'' = ''Bo''"
  "strip '' aman@example.com'' = ''aman@example.com''"
  by (simp_all add: strip_def is_space_def)

lemma lower_examples:
  "lower ''aman@example.com'' = ''aman@example.com''"
  "lower ''priya@example.com'' = ''priya@example.com''"
  "lower '' aman@example.com'' = '' aman@example.com''"
  by (simp_all add: lower_def lower_char_def)

subsection \<open>Uniqueness of emails\<close>

text \<open>
  C1. The claim: in every store reachable from the seeded collection no two records have
  the same email up to case. The code compares the email as it came and stores it
  trimmed: on the seeded store, the payload with the email \<open>" aman@example.com"\<close> (a
  leading space) passes the duplicate test, is answered 201, and leaves two records with
  the email \<open>aman@example.com\<close>.
\<close>

theorem create_user_stores_duplicate_email:
  "emails_unique (users seeded)
   \<and> fst (create_user (\<lambda>us. us) now (payload_of ''Bo'' '' aman@example.com'') seeded) =
       Response 201 (UserMessage ''User created''
         \<lparr>uid = 3, name = ''Bo'', email = ''aman@example.com'', created_at = now,
          updated_at = None\<rparr>)
   \<and> \<not> emails_unique
         (users (snd (create_user (\<lambda>us. us) now (payload_of ''Bo'' '' aman@example.com'') seeded)))"
proof -
  have v: "validate_user_payload (payload_of ''Bo'' '' aman@example.com'') True = Inr (True, None)"
    by (simp add: validate_payload_of strip_examples)
  have free: "\<not> (\<exists>u \<in> set (users seeded). lower (email u) = lower '' aman@example.com'')"
    by (simp add: seeded_eq seed_def lower_examples)
  note step = create_user_201 [OF v subscript_payload_of(2) subscript_payload_of(1) free,
      of "\<lambda>us. us" now]
  show ?thesis
    by (simp add: step next_id_def strip_examples emails_unique_def users_seeded seed_def
        lower_examples)
qed

subsection \<open>Validation\<close>

text \<open>
  C8. The claim: \<open>validate_user_payload\<close> returns its pair for every JSON payload and never
  raises. The name is tested with \<open>isinstance(name, str)\<close>, the email is not: on the
  payload \<open>{"name": "Bo", "email": 5}\<close> the test \<open>"@" not in email\<close> raises TypeError.
\<close>

theorem validate_raises_on_numeric_email:
  "validate_user_payload (JObj [(''name'', JStr ''Bo''), (''email'', JInt 5)]) True =
     Inl TypeError"
  by (simp add: validate_user_payload_def dict_get_def email_rejected_def strip_def
      is_space_def)

text \<open>With that payload \<open>create_user\<close> ends in the exception and leaves the store alone.\<close>

theorem validate_raises_witness:
  "create_user (\<lambda>us. us) ''2024-05-01 10:05:00.000000''
     (JObj [(''name'', JStr ''Bo''), (''email'', JInt 5)]) seeded = (Raises TypeError, seeded)"
  using validate_raises_on_numeric_email by (simp add: create_user_def)

subsection \<open>Listing\<close>

text \<open>
  C6. The claim: every limit that is zero or negative returns all filtered records and is
  reported as \<open>"all"\<close>. The records are all returned, but \<open>limit or "all"\<close> replaces only
  the limit 0: with \<open>limit=-1\<close> the metadata reports the number -1.
\<close>

theorem negative_limit_reported_as_number:
  "get_users q_arg Missing (Given (- 1)) s =
     Response 200
       (Listing
          (length (filtered_users (lower (strip (case q_arg of None \<Rightarrow> [] | Some t \<Rightarrow> t)))
             (users s)))
          1 (LimitNum (- 1))
          (filtered_users (lower (strip (case q_arg of None \<Rightarrow> [] | Some t \<Rightarrow> t))) (users s)))"
  by (simp add: get_users_def Let_def)

subsection \<open>Creating a record\<close>

text \<open>
  C2. A payload that \<open>validate_user_payload\<close> accepts has a string under \<open>email\<close> and
  under \<open>name\<close>. If no record has the payload's email up to case, \<open>create_user\<close> answers
  201 with a new record whose id is \<open>next_id\<close> of the collection before, whose name and
  email are the trimmed payload values, whose \<open>created_at\<close> is the clock's text and which
  has no \<open>updated_at\<close>; the record is appended and the collection written to the file.
  If some record has that email up to case, the answer is 409 and the store is unchanged.
  If validation rejects the payload, the answer is 400 with the message of the validation
  and the store is unchanged.
\<close>

theorem create_user_spec:
  "(validate_user_payload payload True = Inr (True, err) \<longrightarrow>
      (\<exists>em n. subscript payload ''email'' = Inr (JStr em)
         \<and> subscript payload ''name'' = Inr (JStr n)
         \<and> (if \<exists>u \<in> set (users s). lower (email u) = lower em
            then create_user dumps now payload s =
                   (Response 409 (ErrorBody (Some ''User with this email already exists.'')), s)
            else create_user dumps now payload s =
                   (Response 201 (UserMessage ''User created''
                      \<lparr>uid = next_id (users s), name = strip n, email = strip em,
                       created_at = now, updated_at = None\<rparr>),
                    \<lparr>users = users s @ [\<lparr>uid = next_id (users s), name = strip n,
                        email = strip em, created_at = now, updated_at = None\<rparr>],
                     data_file = Some (dumps (users s @ [\<lparr>uid = next_id (users s),
                        name = strip n, email = strip em, created_at = now,
                        updated_at = None\<rparr>]))\<rparr>))))
   \<and> (validate_user_payload payload True = Inr (False, err) \<longrightarrow>
        create_user dumps now payload s = (Response 400 (ErrorBody err), s))"
proof (intro conjI impI)
  assume ok: "validate_user_payload payload True = Inr (True, err)"
  from validate_ok_fields[OF ok] obtain d n e where
    p: "payload = JObj d" "map_of d ''name'' = Some (JStr n)" "map_of d ''email'' = Some (JStr e)"
    by blast
  then have sub: "subscript payload ''email'' = Inr (JStr e)" "subscript payload ''name'' = Inr (JStr n)"
    by simp_all
  show "\<exists>em n. subscript payload ''email'' = Inr (JStr em)
         \<and> subscript payload ''name'' = Inr (JStr n)
         \<and> (if \<exists>u \<in> set (users s). lower (email u) = lower em
            then create_user dumps now payload s =
                   (Response 409 (ErrorBody (Some ''User with this email already exists.'')), s)
            else create_user dumps now payload s =
                   (Response 201 (UserMessage ''User created''
                      \<lparr>uid = next_id (users s), name = strip n, email = strip em,
                       created_at = now, updated_at = None\<rparr>),
                    \<lparr>users = users s @ [\<lparr>uid = next_id (users s), name = strip n,
                        email = strip em, created_at = now, updated_at = None\<rparr>],
                     data_file = Some (dumps (users s @ [\<lparr>uid = next_id (users s),
                        name = strip n, email = strip em, created_at = now,
                        updated_at = None\<rparr>]))\<rparr>))"
  proof (cases "\<exists>u \<in> set (users s). lower (email u) = lower e")
    case True
    from create_user_409[OF ok sub(1) True] sub True show ?thesis by auto
  next
    case False
    from create_user_201[OF ok sub False] sub False show ?thesis by auto
  qed
next
  assume "validate_user_payload payload True = Inr (False, err)"
  then show "create_user dumps now payload s = (Response 400 (ErrorBody err), s)"
    by (rule create_user_400)
qed

lemma more_examples:
  "strip ''bo@x.co'' = ''bo@x.co''" "strip ''BO@X.CO'' = ''BO@X.CO''"
  "lower ''bo@x.co'' = ''bo@x.co''" "lower ''BO@X.CO'' = ''bo@x.co''"
  "strip ''B'' = ''B''"
  by (simp_all add: strip_def is_space_def lower_def lower_char_def)

text \<open>The three cases of C2 on the seeded store: Bo is created, the same email in capitals is
  refused, a one-letter name is refused.\<close>

theorem create_user_spec_witness:
  "validate_user_payload (payload_of ''Bo'' ''bo@x.co'') True = Inr (True, None)
   \<and> create_user (\<lambda>us. us) ''2024-05-01 10:05:00.000000'' (payload_of ''Bo'' ''bo@x.co'') seeded =
       (Response 201 (UserMessage ''User created''
          \<lparr>uid = 3, name = ''Bo'', email = ''bo@x.co'',
           created_at = ''2024-05-01 10:05:00.000000'', updated_at = None\<rparr>),
        \<lparr>users = users seeded @ [\<lparr>uid = 3, name = ''Bo'', email = ''bo@x.co'',
           created_at = ''2024-05-01 10:05:00.000000'', updated_at = None\<rparr>],
         data_file = Some (users seeded @ [\<lparr>uid = 3, name = ''Bo'', email = ''bo@x.co'',
           created_at = ''2024-05-01 10:05:00.000000'', updated_at = None\<rparr>])\<rparr>)
   \<and> validate_user_payload (payload_of ''Bo'' ''BO@X.CO'') True = Inr (True, None)
   \<and> create_user (\<lambda>us. us) ''2024-05-01 10:06:00.000000'' (payload_of ''Bo'' ''BO@X.CO'') bo_store =
       (Response 409 (ErrorBody (Some ''User with this email already exists.'')), bo_store)
   \<and> validate_user_payload (payload_of ''B'' ''bo@x.co'') True =
       Inr (False, Some ''Field 'name' is required (min 2 chars).'')
   \<and> create_user (\<lambda>us. us) ''2024-05-01 10:07:00.000000'' (payload_of ''B'' ''bo@x.co'') seeded =
       (Response 400 (ErrorBody (Some ''Field 'name' is required (min 2 chars).'')), seeded)"
proof -
  have v1: "validate_user_payload (payload_of ''Bo'' ''bo@x.co'') True = Inr (True, None)"
    and v2: "validate_user_payload (payload_of ''Bo'' ''BO@X.CO'') True = Inr (True, None)"
    and v3: "validate_user_payload (payload_of ''B'' ''bo@x.co'') True =
       Inr (False, Some ''Field 'name' is required (min 2 chars).'')"
    by (simp_all add: validate_payload_of more_examples strip_examples)
  have n3: "next_id (users seeded) = 3"
    by (simp add: users_seeded seed_def next_id_def)
  have free: "\<not> (\<exists>u \<in> set (users seeded). lower (email u) = ''bo@x.co'')"
    by (simp add: users_seeded seed_def lower_examples)
  have a: "create_user (\<lambda>us. us) ''2024-05-01 10:05:00.000000'' (payload_of ''Bo'' ''bo@x.co'') seeded =
       (Response 201 (UserMessage ''User created''
          \<lparr>uid = 3, name = ''Bo'', email = ''bo@x.co'',
           created_at = ''2024-05-01 10:05:00.000000'', updated_at = None\<rparr>),
        \<lparr>users = users seeded @ [\<lparr>uid = 3, name = ''Bo'', email = ''bo@x.co'',
           created_at = ''2024-05-01 10:05:00.000000'', updated_at = None\<rparr>],
         data_file = Some (users seeded @ [\<lparr>uid = 3, name = ''Bo'', email = ''bo@x.co'',
           created_at = ''2024-05-01 10:05:00.000000'', updated_at = None\<rparr>])\<rparr>)"
    using create_user_spec [of "payload_of ''Bo'' ''bo@x.co''" None seeded "\<lambda>us. us"
        "''2024-05-01 10:05:00.000000''"] v1 n3 free
    by (simp add: subscript_payload_of more_examples strip_examples)
  have taken: "\<exists>u \<in> set (users bo_store). lower (email u) = ''bo@x.co''"
    by (simp add: bo_store_def a more_examples)
  have b: "create_user (\<lambda>us. us) ''2024-05-01 10:06:00.000000'' (payload_of ''Bo'' ''BO@X.CO'') bo_store =
       (Response 409 (ErrorBody (Some ''User with this email already exists.'')), bo_store)"
    using create_user_spec [of "payload_of ''Bo'' ''BO@X.CO''" None bo_store "\<lambda>us. us"
        "''2024-05-01 10:06:00.000000''"] v2 taken
    by (simp add: subscript_payload_of more_examples)
  have c: "create_user (\<lambda>us. us) ''2024-05-01 10:07:00.000000'' (payload_of ''B'' ''bo@x.co'') seeded =
       (Response 400 (ErrorBody (Some ''Field 'name' is required (min 2 chars).'')), seeded)"
    using create_user_spec [of "payload_of ''B'' ''bo@x.co''"
        "Some ''Field 'name' is required (min 2 chars).''" seeded "\<lambda>us. us"
        "''2024-05-01 10:07:00.000000''"] v3
    by simp
  from v1 v2 v3 a b c show ?thesis by blast
qed

subsection \<open>Updating a record\<close>

lemma update_name_Inr:
  "update_name nm user = Inr user1 \<Longrightarrow>
   user1 = user\<lparr>name := (case nm of JStr n \<Rightarrow> if n = [] then name user else strip n
                            | _ \<Rightarrow> name user)\<rparr>"
  by (cases nm) (auto simp: update_name_def split: if_splits)

lemma update_name_falsy: "\<not> truthy nm \<Longrightarrow> update_name nm user = Inr user"
  by (simp add: update_name_def)

lemma update_name_valid:
  "2 \<le> length (strip n) \<Longrightarrow> update_name (JStr n) user = Inr (user\<lparr>name := strip n\<rparr>)"
  by (auto simp: update_name_def strip_def)

lemma update_name_Inl:
  "update_name nm user = Inl a \<Longrightarrow> a = Response 400 (ErrorBody (Some ''Invalid name''))"
  by (cases nm) (auto simp: update_name_def split: if_splits)

lemma update_email_Inr:
  "update_email user_id em us user = Inr user2 \<Longrightarrow>
   user2 = user\<lparr>email := (case em of JStr e \<Rightarrow> if e = [] then email user else strip e
                             | _ \<Rightarrow> email user)\<rparr>"
  by (cases em)
     (auto simp: update_email_def email_rejected_def split: if_splits sum.splits bool.splits)

lemma update_email_falsy: "\<not> truthy em \<Longrightarrow> update_email user_id em us user = Inr user"
  by (simp add: update_email_def)

lemma update_user_dict:
  assumes found: "find_user (users s) user_id = Some user" and d: "d \<noteq> []"
  shows "update_user dumps now user_id (JObj d) s =
     (case update_name (dict_get d ''name'') user of
        Inl answer \<Rightarrow> (answer, s)
      | Inr user1 \<Rightarrow>
         (case update_email user_id (dict_get d ''email'')
                 (assign user_id (\<lambda>u. user1) (users s)) user1 of
            Inl answer \<Rightarrow> (answer, s\<lparr>users := assign user_id (\<lambda>u. user1) (users s)\<rparr>)
          | Inr user2 \<Rightarrow>
             (Response 200 (UserMessage ''User updated'' (user2\<lparr>updated_at := Some now\<rparr>)),
              \<lparr>users = assign user_id (\<lambda>u. user2\<lparr>updated_at := Some now\<rparr>) (users s),
               data_file = Some (dumps (assign user_id (\<lambda>u. user2\<lparr>updated_at := Some now\<rparr>)
                                  (users s)))\<rparr>)))"
proof -
  have uid: "uid user = user_id" using find_user_Some[OF found] by simp
  have u1: "\<And>user1. update_name (dict_get d ''name'') user = Inr user1 \<Longrightarrow> uid user1 = user_id"
    using uid by (auto dest: update_name_Inr)
  show ?thesis
    using found d
    by (auto simp: update_user_def Let_def save_data_def assign_assign u1 split: sum.splits)
qed


lemma update_user_falsy:
  "find_user (users s) user_id = Some user \<Longrightarrow> \<not> truthy payload \<Longrightarrow>
   update_user dumps now user_id payload s =
     (Response 400 (ErrorBody (Some ''No JSON payload provided'')), s)"
  by (simp add: update_user_def)

lemma update_user_200_dict:
  assumes found: "find_user (users s) user_id = Some user"
    and ok: "update_user dumps now user_id payload s = (Response 200 b, s')"
  shows "\<exists>d. payload = JObj d \<and> d \<noteq> []"
proof (cases payload)
  case (JObj d)
  with found ok show ?thesis by (cases "d = []") (auto simp: update_user_def)
qed (use found ok in \<open>auto simp: update_user_def split: if_splits\<close>)

lemma update_user_200:
  assumes found: "find_user (users s) user_id = Some user" and d: "d \<noteq> []"
    and ok: "update_user dumps now user_id (JObj d) s = (Response 200 b, s')"
  defines "after \<equiv> user\<lparr>name := (case dict_get d ''name'' of
                                     JStr n \<Rightarrow> if n = [] then name user else strip n
                                   | _ \<Rightarrow> name user),
                          email := (case dict_get d ''email'' of
                                     JStr e \<Rightarrow> if e = [] then email user else strip e
                                   | _ \<Rightarrow> email user),
                          updated_at := Some now\<rparr>"
  shows "b = UserMessage ''User updated'' after
       \<and> users s' = assign user_id (\<lambda>u. after) (users s)
       \<and> find_user (users s') user_id = Some after
       \<and> data_file s' = Some (dumps (users s'))"
proof -
  have uid: "uid user = user_id" using find_user_Some[OF found] by simp
  from ok obtain user1 where n1: "update_name (dict_get d ''name'') user = Inr user1"
    unfolding update_user_dict[OF found d]
    by (auto split: sum.splits dest: update_name_Inl)
  from ok n1 obtain user2 where
    e2: "update_email user_id (dict_get d ''email'') (assign user_id (\<lambda>u. user1) (users s)) user1
           = Inr user2"
    unfolding update_user_dict[OF found d]
    by (auto split: sum.splits simp: update_email_def split: if_splits bool.splits)
  have e1: "email user1 = email user"
    by (subst update_name_Inr[OF n1]) simp
  have u2: "user2 = user1\<lparr>email := (case dict_get d ''email'' of
                                      JStr e \<Rightarrow> if e = [] then email user else strip e
                                    | _ \<Rightarrow> email user)\<rparr>"
    using update_email_Inr[OF e2] unfolding e1 .
  have "user2\<lparr>updated_at := Some now\<rparr> = after"
    unfolding u2 after_def by (subst update_name_Inr[OF n1]) simp
  moreover have "uid after = user_id" using uid by (simp add: after_def)
  ultimately show ?thesis
    using ok n1 e2 find_assign[OF found, of after]
    unfolding update_user_dict[OF found d] by auto
qed


lemma assign_absent: "find_user us i = None \<Longrightarrow> assign i f us = us"
  by (induction us) (auto simp: find_user_def split: if_splits)

lemma update_user_keeps_name:
  assumes found: "find_user (users s) user_id = Some user"
    and falsy: "\<not> truthy (dict_get d ''name'')"
  shows "\<exists>u'. find_user (users (snd (update_user dumps now user_id (JObj d) s))) user_id = Some u'
              \<and> name u' = name user"
proof (cases "d = []")
  case True
  with found show ?thesis by (simp add: update_user_def)
next
  case False
  have uid: "uid user = user_id" using find_user_Some[OF found] by simp
  show ?thesis
  proof (cases "update_email user_id (dict_get d ''email'') (users s) user")
    case (Inl answer)
    with found show ?thesis
      by (simp add: update_user_dict[OF found False] update_name_falsy[OF falsy]
          assign_same[OF found])
  next
    case (Inr user2)
    have "name user2 = name user" "uid user2 = user_id"
      using uid by (subst update_email_Inr[OF Inr], simp)+
    with Inr found show ?thesis
      by (simp add: update_user_dict[OF found False] update_name_falsy[OF falsy]
          assign_same[OF found] find_assign)
  qed
qed


lemma update_user_keeps_email:
  assumes found: "find_user (users s) user_id = Some user"
    and falsy: "\<not> truthy (dict_get d ''email'')"
  shows "\<exists>u'. find_user (users (snd (update_user dumps now user_id (JObj d) s))) user_id = Some u'
              \<and> email u' = email user"
proof (cases "d = []")
  case True
  with found show ?thesis by (simp add: update_user_def)
next
  case False
  have uid: "uid user = user_id" using find_user_Some[OF found] by simp
  show ?thesis
  proof (cases "update_name (dict_get d ''name'') user")
    case (Inl answer)
    with found show ?thesis
      by (simp add: update_user_dict[OF found False])
  next
    case (Inr user1)
    have "email user1 = email user" "uid user1 = user_id"
      using uid by (subst update_name_Inr[OF Inr], simp)+
    with Inr found show ?thesis
      by (simp add: update_user_dict[OF found False] update_email_falsy[OF falsy] find_assign)
  qed
qed

lemma update_email_rejected:
  "truthy em \<Longrightarrow> email_rejected em = Inr True \<Longrightarrow>
   update_email user_id em us user = Inl (Response 400 (ErrorBody (Some ''Invalid email'')))"
  by (simp add: update_email_def)

lemma update_email_taken:
  "e \<noteq> [] \<Longrightarrow> email_rejected (JStr e) = Inr False \<Longrightarrow>
   \<exists>v \<in> set us. uid v \<noteq> user_id \<and> lower (email v) = lower e \<Longrightarrow>
   update_email user_id (JStr e) us user =
     Inl (Response 409 (ErrorBody (Some ''Another user with this email exists.'')))"
  by (simp add: update_email_def)

lemma seeded_records: "users seeded = [aman, priya]" "data_file seeded = Some [aman, priya]"
  by (simp_all add: seeded_eq seed_def aman_def priya_def)

lemma find_aman: "find_user (users seeded) 1 = Some aman"
  by (simp add: seeded_records find_user_def aman_def)

text \<open>
  C3. For the id of an existing record: a falsy payload (absent, \<open>null\<close>, \<open>{}\<close>) is answered
  400 and changes nothing. Whenever the answer is 200, the payload is a non-empty dict,
  and the record then has the trimmed payload name if the payload's name is a non-empty
  string and its old name otherwise, the same for the email, and \<open>updated_at\<close> set to the
  clock's text, whether or not a field changed; the collection is written to the file.
  Whatever the answer, a name that is absent or falsy in the payload leaves the record's
  name as it was, and so for the email.
\<close>

theorem update_user_spec:
  assumes found: "find_user (users s) user_id = Some user"
  shows
   "(\<not> truthy payload \<longrightarrow>
       update_user dumps now user_id payload s =
         (Response 400 (ErrorBody (Some ''No JSON payload provided'')), s))
    \<and> (update_user dumps now user_id payload s = (Response 200 b, s') \<longrightarrow>
         (\<exists>d. payload = JObj d \<and> d \<noteq> []
            \<and> b = UserMessage ''User updated''
                  (user\<lparr>name := (case dict_get d ''name'' of
                                    JStr n \<Rightarrow> if n = [] then name user else strip n
                                  | _ \<Rightarrow> name user),
                         email := (case dict_get d ''email'' of
                                    JStr e \<Rightarrow> if e = [] then email user else strip e
                                  | _ \<Rightarrow> email user),
                         updated_at := Some now\<rparr>)
            \<and> find_user (users s') user_id =
                  Some (user\<lparr>name := (case dict_get d ''name'' of
                                    JStr n \<Rightarrow> if n = [] then name user else strip n
                                  | _ \<Rightarrow> name user),
                         email := (case dict_get d ''email'' of
                                    JStr e \<Rightarrow> if e = [] then email user else strip e
                                  | _ \<Rightarrow> email user),
                         updated_at := Some now\<rparr>)
            \<and> data_file s' = Some (dumps (users s'))))
    \<and> (payload = JObj d' \<and> \<not> truthy (dict_get d' ''name'') \<longrightarrow>
         (\<exists>u'. find_user (users (snd (update_user dumps now user_id payload s))) user_id = Some u'
               \<and> name u' = name user))
    \<and> (payload = JObj d' \<and> \<not> truthy (dict_get d' ''email'') \<longrightarrow>
         (\<exists>u'. find_user (users (snd (update_user dumps now user_id payload s))) user_id = Some u'
               \<and> email u' = email user))"
proof (intro conjI impI)
  assume "\<not> truthy payload"
  then show "update_user dumps now user_id payload s =
         (Response 400 (ErrorBody (Some ''No JSON payload provided'')), s)"
    by (rule update_user_falsy[OF found])
next
  assume ok: "update_user dumps now user_id payload s = (Response 200 b, s')"
  from update_user_200_dict[OF found ok] obtain d where d: "payload = JObj d" "d \<noteq> []"
    by blast
  from update_user_200[OF found d(2) ok[unfolded d(1)]] d
  show "\<exists>d. payload = JObj d \<and> d \<noteq> []
            \<and> b = UserMessage ''User updated''
                  (user\<lparr>name := (case dict_get d ''name'' of
                                    JStr n \<Rightarrow> if n = [] then name user else strip n
                                  | _ \<Rightarrow> name user),
                         email := (case dict_get d ''email'' of
                                    JStr e \<Rightarrow> if e = [] then email user else strip e
                                  | _ \<Rightarrow> email user),
                         updated_at := Some now\<rparr>)
            \<and> find_user (users s') user_id =
                  Some (user\<lparr>name := (case dict_get d ''name'' of
                                    JStr n \<Rightarrow> if n = [] then name user else strip n
                                  | _ \<Rightarrow> name user),
                         email := (case dict_get d ''email'' of
                                    JStr e \<Rightarrow> if e = [] then email user else strip e
                                  | _ \<Rightarrow> email user),
                         updated_at := Some now\<rparr>)
            \<and> data_file s' = Some (dumps (users s'))"
    by blast
next
  assume "payload = JObj d' \<and> \<not> truthy (dict_get d' ''name'')"
  then show "\<exists>u'. find_user (users (snd (update_user dumps now user_id payload s))) user_id = Some u'
               \<and> name u' = name user"
    using update_user_keeps_name[OF found] by blast
next
  assume "payload = JObj d' \<and> \<not> truthy (dict_get d' ''email'')"
  then show "\<exists>u'. find_user (users (snd (update_user dumps now user_id payload s))) user_id = Some u'
               \<and> email u' = email user"
    using update_user_keeps_email[OF found] by blast
qed

text \<open>
  On the seeded store: the empty dict is refused, and \<open>{"email": ""}\<close> is answered 200
  with Aman's name and email as they were and \<open>updated_at\<close> stamped.
\<close>

theorem update_user_spec_witness:
  "find_user (users seeded) 1 = Some aman
   \<and> update_user (\<lambda>us. us) ''2024-05-01 11:00:00.000000'' 1 (JObj []) seeded =
        (Response 400 (ErrorBody (Some ''No JSON payload provided'')), seeded)
   \<and> update_user (\<lambda>us. us) ''2024-05-01 11:00:00.000000'' 1 (JObj [(''email'', JStr [])]) seeded =
        (Response 200 (UserMessage ''User updated''
           (aman\<lparr>updated_at := Some ''2024-05-01 11:00:00.000000''\<rparr>)),
         \<lparr>users = [aman\<lparr>updated_at := Some ''2024-05-01 11:00:00.000000''\<rparr>, priya],
          data_file = Some [aman\<lparr>updated_at := Some ''2024-05-01 11:00:00.000000''\<rparr>, priya]\<rparr>)
   \<and> name (aman\<lparr>updated_at := Some ''2024-05-01 11:00:00.000000''\<rparr>) = ''Aman''
   \<and> email (aman\<lparr>updated_at := Some ''2024-05-01 11:00:00.000000''\<rparr>) = ''aman@example.com''"
proof -
  let ?now = "''2024-05-01 11:00:00.000000''"
  note spec = update_user_spec [OF find_aman, of _ "\<lambda>us. us" ?now]
  have a: "update_user (\<lambda>us. us) ?now 1 (JObj []) seeded =
        (Response 400 (ErrorBody (Some ''No JSON payload provided'')), seeded)"
    using spec [of "JObj []"] by simp
  have run: "update_user (\<lambda>us. us) ?now 1 (JObj [(''email'', JStr [])]) seeded =
        (Response 200 (UserMessage ''User updated'' (aman\<lparr>updated_at := Some ?now\<rparr>)),
         \<lparr>users = [aman\<lparr>updated_at := Some ?now\<rparr>, priya],
          data_file = Some [aman\<lparr>updated_at := Some ?now\<rparr>, priya]\<rparr>)"
    by (simp add: update_user_dict[OF find_aman] dict_get_def update_name_falsy
        update_email_falsy seeded_records aman_def priya_def)
  from spec [of "JObj [(''email'', JStr [])]" _ _ "[(''email'', JStr [])]"] run
  have "\<exists>u'. find_user [aman\<lparr>updated_at := Some ?now\<rparr>, priya] 1 = Some u' \<and> name u' = name aman"
    and "\<exists>u'. find_user [aman\<lparr>updated_at := Some ?now\<rparr>, priya] 1 = Some u' \<and> email u' = email aman"
    by (simp_all add: dict_get_def)
  then have "name (aman\<lparr>updated_at := Some ?now\<rparr>) = ''Aman''"
    and "email (aman\<lparr>updated_at := Some ?now\<rparr>) = ''aman@example.com''"
    by (simp_all add: find_user_def aman_def)
  with find_aman a run show ?thesis by blast
qed

text \<open>
  C9. On an existing record, with a payload whose name is a string of at least two
  characters after trimming and whose email is truthy and either fails the email test or
  is, up to case, the email of a record with another id: the answer is an error 400 or
  409, the record in the store has the trimmed new name already and is otherwise as it
  was (so \<open>updated_at\<close> is not stamped), and the file is as it was. When the trimmed name
  differs from the old one, the collection in memory is no longer the one before the
  request, which is what the file was last written from.
\<close>

theorem update_user_not_atomic:
  assumes found: "find_user (users s) user_id = Some user"
    and nm: "dict_get d ''name'' = JStr n" "2 \<le> length (strip n)"
    and em: "truthy (dict_get d ''email'')"
    and bad: "email_rejected (dict_get d ''email'') = Inr True
              \<or> (\<exists>e. dict_get d ''email'' = JStr e \<and> email_rejected (JStr e) = Inr False
                      \<and> (\<exists>v \<in> set (users s). uid v \<noteq> user_id \<and> lower (email v) = lower e))"
  shows "(\<exists>code msg. (code = 400 \<or> code = 409)
            \<and> fst (update_user dumps now user_id (JObj d) s) = Response code (ErrorBody (Some msg)))
       \<and> users (snd (update_user dumps now user_id (JObj d) s)) =
            assign user_id (\<lambda>u. user\<lparr>name := strip n\<rparr>) (users s)
       \<and> find_user (users (snd (update_user dumps now user_id (JObj d) s))) user_id =
            Some (user\<lparr>name := strip n\<rparr>)
       \<and> data_file (snd (update_user dumps now user_id (JObj d) s)) = data_file s
       \<and> (strip n \<noteq> name user \<longrightarrow>
            users (snd (update_user dumps now user_id (JObj d) s)) \<noteq> users s)"
proof -
  let ?user1 = "user\<lparr>name := strip n\<rparr>"
  let ?us1 = "assign user_id (\<lambda>u. ?user1) (users s)"
  have uid: "uid user = user_id" using find_user_Some[OF found] by simp
  have d: "d \<noteq> []" using nm(1) by (auto simp: dict_get_def)
  have n1: "update_name (dict_get d ''name'') user = Inr ?user1"
    using nm by (simp add: update_name_valid)
  have others: "\<And>P. (\<exists>v \<in> set ?us1. uid v \<noteq> user_id \<and> P v)
                    = (\<exists>v \<in> set (users s). uid v \<noteq> user_id \<and> P v)"
    using uid by (intro others_assign) simp
  from bad obtain answer where
    stop: "update_email user_id (dict_get d ''email'') ?us1 ?user1 = Inl answer"
    and code: "answer = Response 400 (ErrorBody (Some ''Invalid email''))
               \<or> answer = Response 409 (ErrorBody (Some ''Another user with this email exists.''))"
  proof
    assume "email_rejected (dict_get d ''email'') = Inr True"
    from update_email_rejected[OF em this] that show ?thesis by blast
  next
    assume "\<exists>e. dict_get d ''email'' = JStr e \<and> email_rejected (JStr e) = Inr False
                \<and> (\<exists>v \<in> set (users s). uid v \<noteq> user_id \<and> lower (email v) = lower e)"
    then obtain e where e: "dict_get d ''email'' = JStr e" "email_rejected (JStr e) = Inr False"
      "\<exists>v \<in> set (users s). uid v \<noteq> user_id \<and> lower (email v) = lower e"
      by blast
    from em e(1) have "e \<noteq> []" by simp
    from update_email_taken[OF this e(2), of ?us1 user_id ?user1] e(3) others
    have "update_email user_id (JStr e) ?us1 ?user1 =
            Inl (Response 409 (ErrorBody (Some ''Another user with this email exists.'')))"
      by simp
    with e(1) that show ?thesis by simp
  qed
  have run: "update_user dumps now user_id (JObj d) s = (answer, s\<lparr>users := ?us1\<rparr>)"
    by (simp add: update_user_dict[OF found d] n1 stop)
  have f: "find_user ?us1 user_id = Some ?user1"
    using find_assign[OF found, of ?user1] uid by simp
  have neq: "strip n \<noteq> name user \<longrightarrow> ?us1 \<noteq> users s"
  proof
    assume "strip n \<noteq> name user"
    then have "?user1 \<noteq> user" by (metis user.select_convs(2) user.surjective user.update_convs(2))
    from assign_neq[OF found this] show "?us1 \<noteq> users s" .
  qed
  from code run f neq show ?thesis by auto
qed

lemma bob_examples:
  "strip '' Bob '' = ''Bob''"
  "strip ''PRIYA@example.com'' = ''PRIYA@example.com''"
  "lower ''PRIYA@example.com'' = ''priya@example.com''"
  "str_contains ''@'' ''PRIYA@example.com''"
  by (simp_all add: strip_def is_space_def lower_def lower_char_def)

text \<open>
  On the seeded store: renaming Aman to \<open>" Bob "\<close> with Priya's email in capitals is
  refused, yet the store holds the name \<open>Bob\<close> and the file still holds \<open>Aman\<close>.
\<close>

theorem update_user_not_atomic_witness:
  "users (snd (update_user (\<lambda>us. us) ''2024-05-01 11:00:00.000000'' 1
       (JObj [(''name'', JStr '' Bob ''), (''email'', JStr ''PRIYA@example.com'')]) seeded)) =
     [aman\<lparr>name := ''Bob''\<rparr>, priya]
   \<and> data_file (snd (update_user (\<lambda>us. us) ''2024-05-01 11:00:00.000000'' 1
       (JObj [(''name'', JStr '' Bob ''), (''email'', JStr ''PRIYA@example.com'')]) seeded)) =
     Some [aman, priya]
   \<and> users (snd (update_user (\<lambda>us. us) ''2024-05-01 11:00:00.000000'' 1
       (JObj [(''name'', JStr '' Bob ''), (''email'', JStr ''PRIYA@example.com'')]) seeded)) \<noteq>
     users seeded"
proof -
  let ?d = "[(''name'', JStr '' Bob ''), (''email'', JStr ''PRIYA@example.com'')]"
  have nm: "dict_get ?d ''name'' = JStr '' Bob ''" and len: "2 \<le> length (strip '' Bob '')"
    and em: "truthy (dict_get ?d ''email'')"
    by (simp_all add: dict_get_def bob_examples)
  have rej: "email_rejected (JStr ''PRIYA@example.com'') = Inr False"
    by (simp add: email_rejected_def bob_examples)
  have bad: "email_rejected (dict_get ?d ''email'') = Inr True
              \<or> (\<exists>e. dict_get ?d ''email'' = JStr e \<and> email_rejected (JStr e) = Inr False
                      \<and> (\<exists>v \<in> set (users seeded). uid v \<noteq> 1 \<and> lower (email v) = lower e))"
    using rej by (simp add: dict_get_def seeded_records aman_def priya_def bob_examples
        lower_examples)
  from update_user_not_atomic [OF find_aman nm len em bad, of "\<lambda>us. us" "''2024-05-01 11:00:00.000000''"]
  show ?thesis
    by (simp add: bob_examples seeded_records aman_def priya_def)
qed

subsection \<open>What a mutation leaves alone\<close>

lemma filter_absent: "find_user us i = None \<Longrightarrow> filter (\<lambda>u. uid u \<noteq> i) us = us"
  by (induction us) (auto simp: find_user_def split: if_splits)

lemma filter_distinct_uid:
  "distinct (map uid us) \<Longrightarrow> find_user us i = Some u \<Longrightarrow>
   Suc (length (filter (\<lambda>u. uid u \<noteq> i) us)) = length us"
proof (induction us)
  case Nil
  then show ?case by (simp add: find_user_def)
next
  case (Cons v vs)
  show ?case
  proof (cases "uid v = i")
    case True
    with Cons.prems have "\<forall>w \<in> set vs. uid w \<noteq> i" by (auto simp: image_iff)
    then have "filter (\<lambda>u. uid u \<noteq> i) vs = vs" by (induction vs) auto
    with True show ?thesis by simp
  next
    case False
    with Cons show ?thesis by (simp add: find_user_def)
  qed
qed

lemma create_user_users:
  "users (snd (create_user dumps now payload s)) = users s
   \<or> (\<exists>new. users (snd (create_user dumps now payload s)) = users s @ [new])"
  by (auto simp: create_user_def Let_def split: sum.splits prod.splits if_splits)

lemma update_user_users:
  "\<exists>w. users (snd (update_user dumps now user_id payload s)) = assign user_id (\<lambda>u. w) (users s)"
proof (cases "find_user (users s) user_id")
  case None
  then show ?thesis by (simp add: update_user_def assign_absent)
next
  case (Some user)
  note same = assign_same[OF Some, symmetric]
  show ?thesis
  proof (cases "\<exists>d. payload = JObj d \<and> d \<noteq> []")
    case False
    then have "snd (update_user dumps now user_id payload s) = s"
      using Some by (cases payload) (auto simp: update_user_def)
    with same show ?thesis by metis
  next
    case True
    then obtain d where d: "payload = JObj d" "d \<noteq> []" by blast
    show ?thesis
      unfolding d(1) update_user_dict[OF Some d(2)]
      using same by (auto split: sum.splits)
  qed
qed

lemma delete_user_users:
  "users (snd (delete_user dumps user_id s)) = filter (\<lambda>u. uid u \<noteq> user_id) (users s)"
  by (cases "find_user (users s) user_id") (simp_all add: delete_user_def filter_absent Let_def)

text \<open>
  C10. Whatever the answer: \<open>create_user\<close> leaves the collection as it was or appends one
  record to it; \<open>update_user\<close> keeps the length of the collection and every record whose id
  is not the one addressed, at its place; \<open>delete_user\<close> leaves exactly the records whose
  id is not the one addressed, in their order, and where the ids are distinct and the id
  exists that is one record less.
\<close>

theorem mutations_frame:
  "(users (snd (create_user dumps now payload s)) = users s
      \<or> (\<exists>new. users (snd (create_user dumps now payload s)) = users s @ [new]))
   \<and> length (users (snd (update_user dumps now user_id payload s))) = length (users s)
   \<and> (\<forall>k. k < length (users s) \<and> uid (users s ! k) \<noteq> user_id \<longrightarrow>
          users (snd (update_user dumps now user_id payload s)) ! k = users s ! k)
   \<and> users (snd (delete_user dumps user_id s)) = filter (\<lambda>u. uid u \<noteq> user_id) (users s)
   \<and> (distinct (map uid (users s)) \<and> find_user (users s) user_id = Some user \<longrightarrow>
          length (users (snd (delete_user dumps user_id s))) + 1 = length (users s))"
proof -
  from update_user_users obtain w where
    w: "users (snd (update_user dumps now user_id payload s)) = assign user_id (\<lambda>u. w) (users s)"
    by blast
  show ?thesis
    unfolding w delete_user_users
    using create_user_users[of dumps now payload s]
    by (auto simp: length_assign nth_assign_other filter_distinct_uid)
qed

text \<open>On the seeded store: creating Bo, renaming Priya, deleting Aman.\<close>

theorem mutations_frame_witness:
  "take 2 (users (snd (create_user (\<lambda>us. us) ''2024-05-01 10:05:00.000000''
       (payload_of ''Bo'' ''bo@x.co'') seeded))) = [aman, priya]
   \<and> length (users (snd (update_user (\<lambda>us. us) ''2024-05-01 11:00:00.000000'' 2
       (JObj [(''name'', JStr ''Priya K'')]) seeded))) = 2
   \<and> users (snd (update_user (\<lambda>us. us) ''2024-05-01 11:00:00.000000'' 2
       (JObj [(''name'', JStr ''Priya K'')]) seeded)) ! 0 = aman
   \<and> users (snd (delete_user (\<lambda>us. us) 1 seeded)) = [priya]
   \<and> length (users (snd (delete_user (\<lambda>us. us) 1 seeded))) + 1 = length (users seeded)"
proof -
  have ids: "distinct (map uid (users seeded))" "uid (users seeded ! 0) \<noteq> 2"
    by (simp_all add: seeded_records aman_def priya_def)
  note create = mutations_frame [where dumps = "\<lambda>us. us" and s = seeded
      and now = "''2024-05-01 10:05:00.000000''" and payload = "payload_of ''Bo'' ''bo@x.co''"]
  note frame = mutations_frame [where dumps = "\<lambda>us. us" and s = seeded
      and now = "''2024-05-01 11:00:00.000000''" and payload = "JObj [(''name'', JStr ''Priya K'')]"]
  from create [THEN conjunct1] have "take 2 (users (snd (create_user (\<lambda>us. us) ''2024-05-01 10:05:00.000000''
       (payload_of ''Bo'' ''bo@x.co'') seeded))) = [aman, priya]"
    by (auto simp: seeded_records)
  moreover from frame [where user_id = 2] ids(2)
  have "length (users (snd (update_user (\<lambda>us. us) ''2024-05-01 11:00:00.000000'' 2
       (JObj [(''name'', JStr ''Priya K'')]) seeded))) = 2"
    and "users (snd (update_user (\<lambda>us. us) ''2024-05-01 11:00:00.000000'' 2
       (JObj [(''name'', JStr ''Priya K'')]) seeded)) ! 0 = aman"
    by (simp_all add: seeded_records)
  moreover from frame [where user_id = 1 and user = aman] ids(1) find_aman
  have "users (snd (delete_user (\<lambda>us. us) 1 seeded)) = [priya]"
    and "length (users (snd (delete_user (\<lambda>us. us) 1 seeded))) + 1 = length (users seeded)"
    by (simp_all add: seeded_records aman_def priya_def)
  ultimately show ?thesis by blast
qed

subsection \<open>The next id\<close>

lemma next_id_Max: "us \<noteq> [] \<Longrightarrow> next_id us = Max (set (map uid us)) + 1"
proof (cases us)
  case (Cons u rest)
  have "Max (set (map uid (u # rest))) = fold max (map uid rest) (uid u)"
    unfolding list.map by (rule Max.set_eq_fold)
  with Cons show ?thesis by (simp add: next_id_def)
qed simp

lemma create_user_201_id:
  "create_user dumps now payload s = (Response 201 b, s') \<Longrightarrow>
   \<exists>new. b = UserMessage ''User created'' new \<and> uid new = next_id (users s)
        \<and> users s' = users s @ [new] \<and> data_file s' = Some (dumps (users s'))"
  by (auto simp: create_user_def Let_def save_data_def split: sum.splits prod.splits if_splits)

lemma find_user_None_iff: "find_user us i = None \<longleftrightarrow> i \<notin> uid ` set us"
  by (induction us) (auto simp: find_user_def)

lemma bo_store_records: "users bo_store = [aman, priya, bo]" "data_file bo_store = Some [aman, priya, bo]"
proof -
  have "validate_user_payload (payload_of ''Bo'' ''bo@x.co'') True = Inr (True, None)"
    by (simp add: validate_payload_of more_examples strip_examples)
  moreover have "\<not> (\<exists>u \<in> set (users seeded). lower (email u) = lower ''bo@x.co'')"
    by (simp add: seeded_records aman_def priya_def lower_examples more_examples)
  ultimately have "create_user (\<lambda>us. us) ''2024-05-01 10:05:00.000000'' (payload_of ''Bo'' ''bo@x.co'') seeded
     = (Response 201 (UserMessage ''User created'' bo), \<lparr>users = [aman, priya, bo], data_file = Some [aman, priya, bo]\<rparr>)"
    using create_user_201 [OF _ subscript_payload_of(2) subscript_payload_of(1), of "''Bo''" "''bo@x.co''" None seeded "\<lambda>us. us" "''2024-05-01 10:05:00.000000''"]
    by (simp add: seeded_records next_id_def aman_def priya_def bo_def more_examples strip_examples)
  then show "users bo_store = [aman, priya, bo]" "data_file bo_store = Some [aman, priya, bo]"
    by (simp_all add: bo_store_def)
qed

lemma gap_store_records: "users gap_store = [aman, bo]"
  by (simp add: gap_store_def delete_user_users bo_store_records aman_def priya_def bo_def)

lemma delete_user_found:
  "find_user (users s) user_id = Some user \<Longrightarrow>
   delete_user dumps user_id s =
     (Response 200 (DeletedMessage user_id),
      \<lparr>users = filter (\<lambda>u. uid u \<noteq> user_id) (users s),
       data_file = Some (dumps (filter (\<lambda>u. uid u \<noteq> user_id) (users s)))\<rparr>)"
  by (simp add: delete_user_def Let_def save_data_def)

lemma cy_examples:
  "strip ''Cy'' = ''Cy''" "strip ''cy@x.co'' = ''cy@x.co''" "lower ''cy@x.co'' = ''cy@x.co''"
  by (simp_all add: strip_def is_space_def lower_def lower_char_def)

text \<open>
  C4, as stated, fails: the store holds the ids 1 and 3 (Bo was created, then Priya
  deleted), so \<open>next_id\<close> is 4; the record with the largest id 3 is deleted; the record
  created next gets the id 2, not the freed id 3.
\<close>

theorem freed_id_not_reused:
  "next_id (users gap_store) = 3 + 1
   \<and> fst (delete_user (\<lambda>us. us) 3 gap_store) = Response 200 (DeletedMessage 3)
   \<and> fst (create_user (\<lambda>us. us) ''2024-05-01 10:09:00.000000'' (payload_of ''Cy'' ''cy@x.co'')
            (snd (delete_user (\<lambda>us. us) 3 gap_store))) =
       Response 201 (UserMessage ''User created''
          \<lparr>uid = 2, name = ''Cy'', email = ''cy@x.co'',
           created_at = ''2024-05-01 10:09:00.000000'', updated_at = None\<rparr>)"
proof -
  have ex: "strip ''Cy'' = ''Cy''" "strip ''cy@x.co'' = ''cy@x.co''" "lower ''cy@x.co'' = ''cy@x.co''"
    by (simp_all add: strip_def is_space_def lower_def lower_char_def)
  have del: "delete_user (\<lambda>us. us) 3 gap_store =
      (Response 200 (DeletedMessage 3), \<lparr>users = [aman], data_file = Some [aman]\<rparr>)"
    by (simp add: delete_user_def find_user_def gap_store_records save_data_def aman_def bo_def Let_def)
  have v: "validate_user_payload (payload_of ''Cy'' ''cy@x.co'') True = Inr (True, None)"
    by (simp add: validate_payload_of ex)
  have free: "\<not> (\<exists>u \<in> set (users \<lparr>users = [aman], data_file = Some [aman]\<rparr>).
                   lower (email u) = lower ''cy@x.co'')"
    by (simp add: aman_def lower_examples ex)
  note cr = create_user_201 [OF v subscript_payload_of(2) subscript_payload_of(1) free,
      of "\<lambda>us. us" "''2024-05-01 10:09:00.000000''"]
  show ?thesis
    unfolding del snd_conv cr
    by (simp add: gap_store_records next_id_def aman_def bo_def ex)
qed

text \<open>
  C4, amended. \<open>next_id\<close> is 1 on the empty collection and one more than the largest id
  otherwise. After the records with the largest id \<open>m\<close> are deleted, a record created next
  gets \<open>next_id\<close> of what remains: one more than the largest remaining id, or 1 when nothing
  remains. That is never more than \<open>m\<close> while records remain, and it is the freed id \<open>m\<close>
  exactly when the largest remaining id is \<open>m - 1\<close>, or when nothing remains and \<open>m\<close> is 1.
\<close>

theorem next_id_after_delete:
  "next_id [] = 1
   \<and> (us \<noteq> [] \<longrightarrow> next_id us = Max (set (map uid us)) + 1)
   \<and> (users s \<noteq> [] \<and> m = Max (set (map uid (users s)))
        \<and> rest = filter (\<lambda>u. uid u \<noteq> m) (users s)
        \<and> create_user dumps now payload (snd (delete_user dumps m s)) =
            (Response 201 (UserMessage msg new), s') \<longrightarrow>
          fst (delete_user dumps m s) = Response 200 (DeletedMessage m)
          \<and> uid new = next_id rest
          \<and> (rest \<noteq> [] \<longrightarrow> uid new \<le> m)
          \<and> (uid new = m \<longleftrightarrow>
                (rest = [] \<and> m = 1) \<or> (rest \<noteq> [] \<and> Max (set (map uid rest)) = m - 1)))"
proof (intro conjI impI)
  show "next_id [] = 1" by (simp add: next_id_def)
next
  assume "us \<noteq> []"
  then show "next_id us = Max (set (map uid us)) + 1" by (rule next_id_Max)
next
  assume a: "users s \<noteq> [] \<and> m = Max (set (map uid (users s)))
        \<and> rest = filter (\<lambda>u. uid u \<noteq> m) (users s)
        \<and> create_user dumps now payload (snd (delete_user dumps m s)) =
            (Response 201 (UserMessage msg new), s')"
  then have ne: "users s \<noteq> []" and m: "m = Max (set (map uid (users s)))"
    and rest: "rest = filter (\<lambda>u. uid u \<noteq> m) (users s)"
    and cr: "create_user dumps now payload (snd (delete_user dumps m s)) =
            (Response 201 (UserMessage msg new), s')"
    by blast+
  have "m \<in> set (map uid (users s))"
    unfolding m using ne by (intro Max_in) simp_all
  then have "find_user (users s) m \<noteq> None" by (simp add: find_user_None_iff)
  then obtain user where found: "find_user (users s) m = Some user" by blast
  note del = delete_user_found[OF found, of dumps]
  have le: "\<forall>u \<in> set (users s). uid u \<le> m"
    unfolding m by simp
  have id: "uid new = next_id rest"
    using create_user_201_id[OF cr] by (auto simp: del rest)
  have lt: "rest \<noteq> [] \<Longrightarrow> Max (set (map uid rest)) < m"
  proof -
    assume r: "rest \<noteq> []"
    have "\<forall>x \<in> set (map uid rest). x < m"
      using le by (auto simp: rest order.strict_iff_order)
    with r show ?thesis by simp
  qed
  show "fst (delete_user dumps m s) = Response 200 (DeletedMessage m)" by (simp add: del)
  show "uid new = next_id rest" by (rule id)
  show "rest \<noteq> [] \<Longrightarrow> uid new \<le> m"
  proof -
    assume r: "rest \<noteq> []"
    have "uid new = Max (set (map uid rest)) + 1"
      unfolding id by (rule next_id_Max[OF r])
    with lt[OF r] show "uid new \<le> m" by linarith
  qed
  show "uid new = m \<longleftrightarrow>
          (rest = [] \<and> m = 1) \<or> (rest \<noteq> [] \<and> Max (set (map uid rest)) = m - 1)"
  proof (cases "rest = []")
    case True
    then show ?thesis by (auto simp: id next_id_def)
  next
    case False
    have "uid new = Max (set (map uid rest)) + 1"
      unfolding id by (rule next_id_Max[OF False])
    with False show ?thesis by auto
  qed
qed

text \<open>On the seeded store the ids are 1 and 2: Priya is deleted and Cy gets her id 2.\<close>

theorem next_id_after_delete_witness:
  "next_id (users seeded) = 2 + 1
   \<and> fst (delete_user (\<lambda>us. us) 2 seeded) = Response 200 (DeletedMessage 2)
   \<and> create_user (\<lambda>us. us) ''2024-05-01 10:09:00.000000'' (payload_of ''Cy'' ''cy@x.co'')
        (snd (delete_user (\<lambda>us. us) 2 seeded)) =
       (Response 201 (UserMessage ''User created''
          \<lparr>uid = 2, name = ''Cy'', email = ''cy@x.co'',
           created_at = ''2024-05-01 10:09:00.000000'', updated_at = None\<rparr>),
        \<lparr>users = [aman, \<lparr>uid = 2, name = ''Cy'', email = ''cy@x.co'',
           created_at = ''2024-05-01 10:09:00.000000'', updated_at = None\<rparr>],
         data_file = Some [aman, \<lparr>uid = 2, name = ''Cy'', email = ''cy@x.co'',
           created_at = ''2024-05-01 10:09:00.000000'', updated_at = None\<rparr>]\<rparr>)"
proof -
  let ?now = "''2024-05-01 10:09:00.000000''"
  let ?after = "snd (delete_user (\<lambda>us. us) 2 seeded)"
  have ne: "users seeded \<noteq> []" and m: "2 = Max (set (map uid (users seeded)))"
    and rest: "[aman] = filter (\<lambda>u. uid u \<noteq> 2) (users seeded)"
    by (simp_all add: seeded_records aman_def priya_def)
  have after: "?after = \<lparr>users = [aman], data_file = Some [aman]\<rparr>"
    by (simp add: delete_user_def Let_def save_data_def find_user_def seeded_records aman_def
        priya_def)
  have v: "validate_user_payload (payload_of ''Cy'' ''cy@x.co'') True = Inr (True, None)"
    by (simp add: validate_payload_of cy_examples)
  have free: "\<not> (\<exists>u \<in> set (users ?after). lower (email u) = lower ''cy@x.co'')"
    by (simp add: after aman_def lower_examples cy_examples)
  note cr = create_user_201 [OF v subscript_payload_of(2) subscript_payload_of(1) free,
      of "\<lambda>us. us" ?now]
  let ?cy = "\<lparr>uid = next_id (users ?after), name = strip ''Cy'', email = strip ''cy@x.co'',
              created_at = ?now, updated_at = None\<rparr>"
  note inst = next_id_after_delete [where us = "users seeded" and s = seeded and m = 2
      and rest = "[aman]" and dumps = "\<lambda>us. us" and now = ?now
      and payload = "payload_of ''Cy'' ''cy@x.co''" and msg = "''User created''"
      and new = ?cy and s' = "\<lparr>users = users ?after @ [?cy], data_file = Some (users ?after @ [?cy])\<rparr>"]
  have prem: "users seeded \<noteq> [] \<and> 2 = Max (set (map uid (users seeded)))
        \<and> [aman] = filter (\<lambda>u. uid u \<noteq> 2) (users seeded)
        \<and> create_user (\<lambda>us. us) ?now (payload_of ''Cy'' ''cy@x.co'') ?after =
            (Response 201 (UserMessage ''User created'' ?cy),
             \<lparr>users = users ?after @ [?cy], data_file = Some (users ?after @ [?cy])\<rparr>)"
    using ne m rest cr by (intro conjI)
  note nid = inst [THEN conjunct2, THEN conjunct1, THEN mp, OF ne]
  note post = inst [THEN conjunct2, THEN conjunct2, THEN mp, OF prem]
  have "next_id (users seeded) = 2 + 1"
    unfolding nid m[symmetric] by simp
  moreover have "fst (delete_user (\<lambda>us. us) 2 seeded) = Response 200 (DeletedMessage 2)"
    using post by (rule conjunct1)
  moreover have "uid ?cy = 2"
    using post [THEN conjunct2, THEN conjunct2, THEN conjunct2] by (simp add: aman_def)
  then have "next_id (users ?after) = 2" by simp
  ultimately have "next_id (users seeded) = 2 + 1"
    and "fst (delete_user (\<lambda>us. us) 2 seeded) = Response 200 (DeletedMessage 2)"
    and "next_id (users ?after) = 2"
    by blast+
  with cr show ?thesis by (simp add: after cy_examples)
qed

subsection \<open>Pages of the listing\<close>

lemma py_slice_forward:
  "0 \<le> start \<Longrightarrow> 0 \<le> len \<Longrightarrow>
   py_slice xs start (start + len) = take (nat len) (drop (nat start) xs)"
  by (auto simp: py_slice_def Let_def min_def nat_diff_distrib' take_all_iff
      intro!: arg_cong2[where f = take] )

lemma length_py_slice:
  "start \<le> stop \<Longrightarrow> int (length (py_slice xs start stop)) \<le> stop - start"
  by (auto simp: py_slice_def Let_def min_def max_def)


lemma get_users_paged:
  "0 < limit \<Longrightarrow>
   get_users q_arg (Given page) (Given limit) s =
     Response 200
       (Listing
          (length (filtered_users (lower (strip (case q_arg of None \<Rightarrow> [] | Some t \<Rightarrow> t))) (users s)))
          page (LimitNum limit)
          (py_slice (filtered_users (lower (strip (case q_arg of None \<Rightarrow> [] | Some t \<Rightarrow> t))) (users s))
             ((page - 1) * limit) ((page - 1) * limit + limit)))"
  by (simp add: get_users_def Let_def)

lemma py_slice_from_end:
  "start < 0 \<Longrightarrow> stop \<le> 0 \<Longrightarrow>
   py_slice xs start stop =
     (if stop = 0 then []
      else take (nat (max 0 (int (length xs) + stop) - max 0 (int (length xs) + start)))
             (drop (nat (max 0 (int (length xs) + start))) xs))"
  by (auto simp: py_slice_def Let_def add.commute)

lemma no_query: "filtered_users (lower (strip [])) us = us"
  by (simp add: filtered_users_def strip_def lower_def)

text \<open>
  C5, as stated, fails for a negative page: the store holds Aman, Priya and Bo, and
  \<open>page=-1&limit=1\<close> makes the slice \<open>filtered[-2:-1]\<close>, which Python counts from the end:
  the answer holds Priya, although the offset \<open>(page-1)*limit = -2\<close> is out of range.
\<close>

theorem negative_page_returns_records:
  "get_users None (Given (- 1)) (Given 1) bo_store =
     Response 200 (Listing 3 (- 1) (LimitNum 1) [priya])"
  by (simp add: get_users_paged no_query bo_store_records py_slice_def)

text \<open>
  C5, amended. For a limit above 0 the answer is always a 200 whose total is the number of
  filtered records and whose data has at most \<open>limit\<close> records. For a page of at least 1
  the data is the slice of the filtered list at offset \<open>(page-1)*limit\<close> of length
  \<open>limit\<close>, cut at the end of the list, and empty when the offset is at or beyond the end.
  For page 0 the data is empty. For a negative page both bounds count from the end of the
  list, so the data is the piece between the positions \<open>n + (page-1)*limit\<close> and
  \<open>n + page*limit\<close>, each raised to 0. With 25 filtered records and limit 10, page 2 has
  the records 11 to 20, page 3 the records 21 to 25 and page 4 none.
\<close>

theorem get_users_paging:
  fixes fl :: "user list"
  defines "n \<equiv> int (length fl)"
  assumes fl: "fl = filtered_users (lower (strip (case q_arg of None \<Rightarrow> [] | Some t \<Rightarrow> t))) (users s)"
    and limit: "0 < limit"
  shows "\<exists>data. get_users q_arg (Given page) (Given limit) s =
                  Response 200 (Listing (length fl) page (LimitNum limit) data)
          \<and> int (length data) \<le> limit
          \<and> (1 \<le> page \<longrightarrow> data = take (nat limit) (drop (nat ((page - 1) * limit)) fl))
          \<and> (1 \<le> page \<and> n \<le> (page - 1) * limit \<longrightarrow> data = [])
          \<and> (page = 0 \<longrightarrow> data = [])
          \<and> (page < 0 \<longrightarrow>
                data = take (nat (max 0 (n + page * limit) - max 0 (n + (page - 1) * limit)))
                         (drop (nat (max 0 (n + (page - 1) * limit))) fl))
          \<and> (length fl = 25 \<and> limit = 10 \<longrightarrow>
                (page = 2 \<longrightarrow> data = take 10 (drop 10 fl) \<and> length data = 10)
              \<and> (page = 3 \<longrightarrow> data = drop 20 fl \<and> length data = 5)
              \<and> (page = 4 \<longrightarrow> data = []))"
proof -
  let ?start = "(page - 1) * limit"
  let ?data = "py_slice fl ?start (?start + limit)"
  have stop: "?start + limit = page * limit" by (simp add: algebra_simps)
  have run: "get_users q_arg (Given page) (Given limit) s =
                  Response 200 (Listing (length fl) page (LimitNum limit) ?data)"
    unfolding fl by (rule get_users_paged[OF limit])
  have len: "int (length ?data) \<le> limit"
    using length_py_slice[of ?start "?start + limit" fl] limit by simp
  have fwd: "1 \<le> page \<Longrightarrow> ?data = take (nat limit) (drop (nat ?start) fl)"
    using limit by (intro py_slice_forward) simp_all
  have beyond: "1 \<le> page \<Longrightarrow> n \<le> ?start \<Longrightarrow> ?data = []"
  proof -
    assume p: "1 \<le> page" and b: "n \<le> ?start"
    then have "length fl \<le> nat ?start" by (simp add: n_def)
    with fwd[OF p] show ?thesis by simp
  qed
  have zero: "page = 0 \<Longrightarrow> ?data = []"
    using limit py_slice_from_end[of "- limit" 0 fl] by simp
  have neg: "page < 0 \<Longrightarrow>
      ?data = take (nat (max 0 (n + page * limit) - max 0 (n + ?start)))
                (drop (nat (max 0 (n + ?start))) fl)"
  proof -
    assume p: "page < 0"
    with limit have "?start < 0" "page * limit < 0"
      by (simp_all add: mult_less_0_iff)
    with py_slice_from_end[of ?start "page * limit" fl] p limit show ?thesis
      unfolding stop n_def by simp
  qed
  have ex: "length fl = 25 \<and> limit = 10 \<longrightarrow>
                (page = 2 \<longrightarrow> ?data = take 10 (drop 10 fl) \<and> length ?data = 10)
              \<and> (page = 3 \<longrightarrow> ?data = drop 20 fl \<and> length ?data = 5)
              \<and> (page = 4 \<longrightarrow> ?data = [])"
  proof (intro impI conjI)
    assume a: "length fl = 25 \<and> limit = 10"
    { assume "page = 2"
      with fwd a show "?data = take 10 (drop 10 fl)" by simp
      with a show "length ?data = 10" by simp }
    { assume "page = 3"
      with fwd a show "?data = drop 20 fl" by simp
      with a show "length ?data = 5" by simp }
    { assume "page = 4"
      with fwd a show "?data = []" by simp }
  qed
  from run len fwd beyond zero neg ex show ?thesis by blast
qed

text \<open>On the store with Aman, Priya and Bo and limit 2: page 2 holds Bo, page 3 is empty.\<close>

theorem get_users_paging_witness:
  "get_users None (Given 2) (Given 2) bo_store = Response 200 (Listing 3 2 (LimitNum 2) [bo])
   \<and> get_users None (Given 3) (Given 2) bo_store = Response 200 (Listing 3 3 (LimitNum 2) [])"
proof -
  have fl: "users bo_store =
      filtered_users (lower (strip (case None of None \<Rightarrow> [] | Some t \<Rightarrow> t))) (users bo_store)"
    by (simp add: no_query)
  from get_users_paging [OF fl, of 2 2] get_users_paging [OF fl, of 2 3]
  show ?thesis by (auto simp: bo_store_records)
qed

subsection \<open>The file\<close>

lemma update_user_200_found:
  "update_user dumps now user_id payload s = (Response 200 b, s') \<Longrightarrow>
   \<exists>user. find_user (users s) user_id = Some user"
  by (cases "find_user (users s) user_id") (auto simp: update_user_def)

lemma update_user_200_file:
  assumes "update_user dumps now user_id payload s = (Response 200 b, s')"
  shows "data_file s' = Some (dumps (users s'))"
proof -
  from update_user_200_found[OF assms] obtain user where
    found: "find_user (users s) user_id = Some user" by blast
  from update_user_200_dict[OF found assms] obtain d where d: "payload = JObj d" "d \<noteq> []"
    by blast
  from update_user_200[OF found d(2) assms[unfolded d(1)]] show ?thesis by simp
qed

lemma delete_user_200_file:
  "delete_user dumps user_id s = (Response 200 b, s') \<Longrightarrow> data_file s' = Some (dumps (users s'))"
  by (cases "find_user (users s) user_id")
     (auto simp: delete_user_def Let_def save_data_def)

lemma load_saved:
  "loads (dumps us) = Some us \<Longrightarrow> load_data loads (Some (dumps us)) = us"
  by (simp add: load_data_def)

text \<open>
  C7. Saving a collection and loading the file again gives the collection back, in its
  order, whatever the file held before, provided the decoder reads what the encoder wrote
  for this collection (what \<open>json.load\<close> does with the output of \<open>json.dump\<close>). And after
  every create, update or delete that is answered with success, the file holds the
  encoding of the collection in memory, so loading it gives that collection.
\<close>

theorem save_then_load:
  "(loads (dumps us) = Some us \<longrightarrow> load_data loads (save_data dumps us f) = us)
   \<and> (create_user dumps now payload s = (Response 201 b, s')
        \<and> loads (dumps (users s')) = Some (users s') \<longrightarrow>
          load_data loads (data_file s') = users s')
   \<and> (update_user dumps now user_id payload s = (Response 200 b, s')
        \<and> loads (dumps (users s')) = Some (users s') \<longrightarrow>
          load_data loads (data_file s') = users s')
   \<and> (delete_user dumps user_id s = (Response 200 b, s')
        \<and> loads (dumps (users s')) = Some (users s') \<longrightarrow>
          load_data loads (data_file s') = users s')"
  using create_user_201_id[of dumps now payload s b s'] update_user_200_file[of dumps now user_id payload s b s']
    delete_user_200_file[of dumps user_id s b s']
  by (auto simp: save_data_def load_saved)

text \<open>
  With a codec that stores the list reversed: saving Aman and Priya over a file that held
  Bo and loading gives Aman and Priya; after Priya is deleted the file loads as Aman.
\<close>

theorem save_then_load_witness:
  "load_data (\<lambda>text. Some (rev text)) (save_data rev [aman, priya] (Some [bo])) = [aman, priya]
   \<and> load_data (\<lambda>text. Some (rev text))
         (data_file (snd (delete_user rev 2 \<lparr>users = [aman, priya], data_file = None\<rparr>))) = [aman]"
proof -
  note inst = save_then_load [where loads = "\<lambda>text. Some (rev text)" and dumps = rev]
  have del: "delete_user rev 2 \<lparr>users = [aman, priya], data_file = None\<rparr> =
      (Response 200 (DeletedMessage 2), \<lparr>users = [aman], data_file = Some (rev [aman])\<rparr>)"
    by (simp add: delete_user_def Let_def save_data_def find_user_def aman_def priya_def)
  from inst [where us = "[aman, priya]" and f = "Some [bo]", THEN conjunct1]
  have "load_data (\<lambda>text. Some (rev text)) (save_data rev [aman, priya] (Some [bo])) = [aman, priya]"
    by simp
  moreover from inst [where s = "\<lparr>users = [aman, priya], data_file = None\<rparr>"
        and user_id = 2 and b = "DeletedMessage 2"
        and s' = "\<lparr>users = [aman], data_file = Some (rev [aman])\<rparr>",
      THEN conjunct2, THEN conjunct2, THEN conjunct2] del
  have "load_data (\<lambda>text. Some (rev text))
         (data_file (snd (delete_user rev 2 \<lparr>users = [aman, priya], data_file = None\<rparr>))) = [aman]"
    by simp
  ultimately show ?thesis by blast
qed

end
